theory Spec2Isabelle
  imports Main "HOL-Library.Char_ord" "HOL-Library.List_Lexorder"
begin

section \<open>JavaScript values and objects\<close>

text \<open>
  The models (\<open>models/user.js\<close>, \<open>models/job.js\<close>) pass plain JavaScript values to the
  database driver and get plain objects back. Numbers are integers here (ids, salaries,
  parameter positions); fractional numbers do not occur in the operations below.
  An object is an association list, in insertion order, read with \<open>js_get\<close>: a missing
  property reads as \<open>undefined\<close>.
\<close>

datatype jsval = JUndefined | JNull | JBool bool | JNum int | JStr string

type_synonym obj = "(string \<times> jsval) list"

definition js_get :: "obj \<Rightarrow> string \<Rightarrow> jsval" where
  "js_get ob k = (case map_of ob k of None \<Rightarrow> JUndefined | Some v \<Rightarrow> v)"

definition js_delete :: "obj \<Rightarrow> string \<Rightarrow> obj" where
  "js_delete ob k = filter (\<lambda>kv. fst kv \<noteq> k) ob"

definition js_set :: "obj \<Rightarrow> string \<Rightarrow> jsval \<Rightarrow> obj" where
  "js_set ob k v =
     (if k \<in> fst ` set ob then map (\<lambda>kv. if fst kv = k then (k, v) else kv) ob
      else ob @ [(k, v)])"

definition js_keys :: "obj \<Rightarrow> string list" where
  "js_keys ob = map fst ob"

text \<open>Truthiness, as \<open>if (v)\<close> tests it.\<close>

fun truthy :: "jsval \<Rightarrow> bool" where
  "truthy JUndefined = False"
| "truthy JNull = False"
| "truthy (JBool b) = b"
| "truthy (JNum n) = (n \<noteq> 0)"
| "truthy (JStr s) = (s \<noteq> [])"

text \<open>Decimal rendering of a number inside a template literal or a concatenation.\<close>

definition digit_char :: "nat \<Rightarrow> char" where
  "digit_char d = ''0123456789'' ! d"

function decimal :: "nat \<Rightarrow> string" where
  "decimal n = (if 10 \<le> n then decimal (n div 10) else []) @ [digit_char (n mod 10)]"
  by pat_completeness auto
termination
  by (relation "measure (\<lambda>n. n)") auto

declare decimal.simps [simp del]

text \<open>\<open>String(n)\<close> for an integer \<open>n\<close>.\<close>

definition number_to_string :: "int \<Rightarrow> string" where
  "number_to_string n = (if 0 \<le> n then decimal (nat n) else CHR ''-'' # decimal (nat (- n)))"

fun js_to_string :: "jsval \<Rightarrow> string" where
  "js_to_string JUndefined = ''undefined''"
| "js_to_string JNull = ''null''"
| "js_to_string (JBool b) = (if b then ''true'' else ''false'')"
| "js_to_string (JNum n) = number_to_string n"
| "js_to_string (JStr s) = s"

text \<open>\<open>Array.prototype.join\<close> on an array of strings.\<close>

fun join :: "string \<Rightarrow> string list \<Rightarrow> string" where
  "join sep [] = []"
| "join sep [x] = x"
| "join sep (x # y # ys) = x @ sep @ join sep (y # ys)"

text \<open>
  The error classes the models throw (\<open>ExpressError\<close> carries its status code), the
  \<open>TypeError\<close> of the language, and \<open>Fault\<close> for a failure of the store or of the
  hashing library, which the models do not catch.
\<close>

datatype error =
    NotFoundError string
  | BadRequestError string
  | UnauthorizedError string
  | ExpressError string int
  | TypeError string
  | Fault string

section \<open>Job.find: the predicate composer\<close>

text \<open>
  \<open>Job.find({ title, minSalary, hasEquity = 0, companyHandle })\<close> pushes one text
  fragment per filter whose value is truthy, numbering the positional parameters with
  \<open>i++\<close>, and pushes the bound value of every numbered fragment. The statement text
  is the fixed selection followed by the fragments joined with \<open>' and '\<close>; layout
  whitespace of the template literal is written as single spaces.
\<close>

definition Job_find_parts :: "obj \<Rightarrow> string list \<times> jsval list" where
  "Job_find_parts bag =
     (let title = js_get bag ''title'';
          minSalary = js_get bag ''minSalary'';
          hasEquity = (case js_get bag ''hasEquity'' of JUndefined \<Rightarrow> JNum 0 | v \<Rightarrow> v);
          companyHandle = js_get bag ''companyHandle'';
          sqlComponents = [];
          sqlInputs = [];
          i = (1::nat);
          (sqlComponents, sqlInputs, i) =
            (if truthy title
             then (sqlComponents @ [''lower(title) like lower($'' @ decimal i @ '')''],
                   sqlInputs @ [JStr (''%'' @ js_to_string title @ ''%'')], i + 1)
             else (sqlComponents, sqlInputs, i));
          sqlComponents =
            (if truthy hasEquity then sqlComponents @ [''equity > 0''] else sqlComponents);
          (sqlComponents, sqlInputs, i) =
            (if truthy minSalary
             then (sqlComponents @ [''salary >= $'' @ decimal i],
                   sqlInputs @ [minSalary], i + 1)
             else (sqlComponents, sqlInputs, i));
          (sqlComponents, sqlInputs, i) =
            (if truthy companyHandle
             then (sqlComponents @ [''company_handle = $'' @ decimal i],
                   sqlInputs @ [companyHandle], i + 1)
             else (sqlComponents, sqlInputs, i))
      in (sqlComponents, sqlInputs))"

definition Job_find_select :: string where
  \<open>Job_find_select =
     ''select id, title, salary, equity, company_handle as "companyHandle" from jobs where ''\<close>

definition Job_find_query :: "obj \<Rightarrow> string \<times> jsval list" where
  "Job_find_query bag =
     (let (sqlComponents, sqlInputs) = Job_find_parts bag;
          sqlSearchLine = Job_find_select @ join '' and '' sqlComponents
      in (sqlSearchLine, sqlInputs))"

text \<open>
  The statement is handed to the driver, \<open>db.query(sqlSearchLine, sqlInputs)\<close>, and the
  rows it answers are returned as they are. The driver is a parameter: what the engine
  does with a statement text is not part of the repository.
\<close>

definition Job_find :: "(string \<Rightarrow> jsval list \<Rightarrow> 'r) \<Rightarrow> obj \<Rightarrow> 'r" where
  "Job_find db_query bag = (let (sqlSearchLine, sqlInputs) = Job_find_query bag
                            in db_query sqlSearchLine sqlInputs)"

text \<open>
  The vocabulary of the specification of the composer: the four filters in the order the
  code tests them, the value each one has after destructuring, the fragment a filter
  stands for at a parameter position, and the value it binds. A filter is \<open>present\<close>
  when the bag supplies it (\<open>hasEquity\<close>: when it is \<open>true\<close>); it is \<open>honoured\<close> when
  its value is truthy.
\<close>

datatype filter_name = Title | HasEquity | MinSalary | CompanyHandle

definition filter_order :: "filter_name list" where
  "filter_order = [Title, HasEquity, MinSalary, CompanyHandle]"

fun filter_value :: "obj \<Rightarrow> filter_name \<Rightarrow> jsval" where
  "filter_value bag Title = js_get bag ''title''"
| "filter_value bag HasEquity = js_get bag ''hasEquity''"
| "filter_value bag MinSalary = js_get bag ''minSalary''"
| "filter_value bag CompanyHandle = js_get bag ''companyHandle''"

fun present :: "obj \<Rightarrow> filter_name \<Rightarrow> bool" where
  "present bag HasEquity = (filter_value bag HasEquity = JBool True)"
| "present bag f = (filter_value bag f \<noteq> JUndefined)"

definition honoured :: "obj \<Rightarrow> filter_name \<Rightarrow> bool" where
  "honoured bag f = truthy (filter_value bag f)"

fun clause_text :: "filter_name \<Rightarrow> nat \<Rightarrow> string" where
  "clause_text Title i = ''lower(title) like lower($'' @ decimal i @ '')''"
| "clause_text HasEquity i = ''equity > 0''"
| "clause_text MinSalary i = ''salary >= $'' @ decimal i"
| "clause_text CompanyHandle i = ''company_handle = $'' @ decimal i"

fun bound_value :: "obj \<Rightarrow> filter_name \<Rightarrow> jsval" where
  "bound_value bag Title = JStr (''%'' @ js_to_string (js_get bag ''title'') @ ''%'')"
| "bound_value bag f = filter_value bag f"

text \<open>Numbering from position \<open>i\<close>: only a filter other than \<open>hasEquity\<close> uses one up.\<close>

fun clauses_from :: "nat \<Rightarrow> filter_name list \<Rightarrow> string list" where
  "clauses_from i [] = []"
| "clauses_from i (f # fs) =
     clause_text f i # clauses_from (if f = HasEquity then i else Suc i) fs"

section \<open>The store\<close>

text \<open>
  The three tables the models read and write, a row per record, columns under their SQL
  names with the alias the statements give the table (\<open>u\<close>, \<open>j\<close>, \<open>a\<close>). Each fixed
  statement of the models is given by what it selects or changes in these tables. The
  schema itself is not among the sources: keys and references are checked where a
  statement inserts, other column constraints are not modelled.
\<close>

record user_row =
  u_username :: string
  u_password :: string
  u_first_name :: string
  u_last_name :: string
  u_email :: string
  u_is_admin :: bool

record job_row =
  j_id :: int
  j_title :: string
  j_salary :: "int option"
  j_equity :: string
  j_company_handle :: string

record application_row =
  a_username :: string
  a_job_id :: int

record store =
  users :: "user_row list"
  jobs :: "job_row list"
  applications :: "application_row list"

text \<open>\<open>result.rows[0]\<close>: the first row, or \<open>undefined\<close> (\<open>None\<close>) when there is none.\<close>

fun first_row :: "'a list \<Rightarrow> 'a option" where
  "first_row [] = None"
| "first_row (r # rs) = Some r"

text \<open>
  \<open>RETURNING username, first_name AS "firstName", last_name AS "lastName", email,
  is_admin AS "isAdmin"\<close>, the projection of register and update.
\<close>

definition user_returning :: "user_row \<Rightarrow> obj" where
  "user_returning u =
     [(''username'', JStr (u_username u)),
      (''firstName'', JStr (u_first_name u)),
      (''lastName'', JStr (u_last_name u)),
      (''email'', JStr (u_email u)),
      (''isAdmin'', JBool (u_is_admin u))]"

section \<open>User.authenticate\<close>

text \<open>\<open>SELECT username, password, first_name AS "firstName", ... FROM users WHERE username = $1\<close>\<close>

definition select_user_credentials :: "store \<Rightarrow> string \<Rightarrow> obj list" where
  "select_user_credentials st username =
     map (\<lambda>u. [(''username'', JStr (u_username u)),
               (''password'', JStr (u_password u)),
               (''firstName'', JStr (u_first_name u)),
               (''lastName'', JStr (u_last_name u)),
               (''email'', JStr (u_email u)),
               (''isAdmin'', JBool (u_is_admin u))])
       (filter (\<lambda>u. u_username u = username) (users st))"

text \<open>
  \<open>bcrypt.compare\<close> is a parameter. It rejects a hash that is not a string; the
  rejection propagates.
\<close>

definition User_authenticate ::
  "(string \<Rightarrow> string \<Rightarrow> bool) \<Rightarrow> store \<Rightarrow> string \<Rightarrow> string \<Rightarrow> error + obj" where
  "User_authenticate bcrypt_compare st username password =
     (case first_row (select_user_credentials st username) of
        Some user \<Rightarrow>
          (case js_get user ''password'' of
             JStr hash \<Rightarrow>
               if bcrypt_compare password hash then Inr (js_delete user ''password'')
               else Inl (UnauthorizedError ''Invalid username/password'')
           | _ \<Rightarrow> Inl (Fault ''data and hash must be strings''))
      | None \<Rightarrow> Inl (UnauthorizedError ''Invalid username/password''))"

section \<open>User.register\<close>

text \<open>
  \<open>INSERT INTO users (...) VALUES ($1, ..., $6) RETURNING ...\<close>: the primary key
  \<open>username\<close> is checked by the store; the answer is the one inserted row.
\<close>

definition insert_user :: "store \<Rightarrow> user_row \<Rightarrow> (error + obj list) \<times> store" where
  "insert_user st u =
     (if list_ex (\<lambda>v. u_username v = u_username u) (users st)
      then (Inl (Fault ''duplicate key value violates unique constraint''), st)
      else (Inr [user_returning u], st\<lparr>users := users st @ [u]\<rparr>))"

text \<open>
  \<open>register({ username, password, firstName, lastName, email, isAdmin })\<close>, with
  \<open>bcrypt.hash(_, BCRYPT_WORK_FACTOR)\<close> as a parameter. The result is
  \<open>result.rows[0]\<close>, which is \<open>undefined\<close> (\<open>None\<close>) for an answer without rows.
\<close>

definition User_register ::
  "(string \<Rightarrow> string) \<Rightarrow> store \<Rightarrow> string \<Rightarrow> string \<Rightarrow> string \<Rightarrow> string \<Rightarrow> string \<Rightarrow> bool
     \<Rightarrow> (error + obj option) \<times> store" where
  "User_register bcrypt_hash st username password firstName lastName email isAdmin =
     (let duplicateCheck = map (\<lambda>u. [(''username'', JStr (u_username u))])
                             (filter (\<lambda>u. u_username u = username) (users st))
      in case first_row duplicateCheck of
           Some _ \<Rightarrow> (Inl (BadRequestError (''Duplicate username: '' @ username)), st)
         | None \<Rightarrow>
             (let hashedPassword = bcrypt_hash password;
                  (result, st') = insert_user st
                     \<lparr>u_username = username, u_password = hashedPassword,
                      u_first_name = firstName, u_last_name = lastName,
                      u_email = email, u_is_admin = isAdmin\<rparr>
              in case result of
                   Inl e \<Rightarrow> (Inl e, st')
                 | Inr rows \<Rightarrow> (Inr (first_row rows), st')))"

section \<open>User.findAll\<close>

text \<open>
  \<open>FROM users u LEFT JOIN applications a ON a.username = u.username\<close>: every user with
  each of its applications, or once with no application.
\<close>

definition users_left_join_applications ::
  "store \<Rightarrow> (user_row \<times> application_row option) list" where
  "users_left_join_applications st =
     concat (map (\<lambda>u. case filter (\<lambda>a. a_username a = u_username u) (applications st) of
                          [] \<Rightarrow> [(u, None)]
                        | as \<Rightarrow> map (\<lambda>a. (u, Some a)) as)
                 (users st))"

text \<open>
  The columns both listings select; the job column is \<open>NULL\<close> for a user without
  applications. \<open>findAll\<close> names it \<open>job\<close>, \<open>get\<close> names it \<open>jobId\<close>.
\<close>

definition user_join_row :: "string \<Rightarrow> user_row \<times> application_row option \<Rightarrow> obj" where
  "user_join_row job_column ua =
     (case ua of (u, a) \<Rightarrow>
        [(''username'', JStr (u_username u)),
         (''firstName'', JStr (u_first_name u)),
         (''lastName'', JStr (u_last_name u)),
         (''email'', JStr (u_email u)),
         (''isAdmin'', JBool (u_is_admin u)),
         (job_column, (case a of None \<Rightarrow> JNull | Some a \<Rightarrow> JNum (a_job_id a)))])"

text \<open>\<open>... ORDER BY username\<close>, rows of one user in the order of the join.\<close>

definition select_all_users :: "store \<Rightarrow> obj list" where
  "select_all_users st =
     map (user_join_row ''job'')
       (sort_key (\<lambda>ua. u_username (fst ua)) (users_left_join_applications st))"

text \<open>
  The test \<open>rows[0] != row.username\<close> of the callback compares the record at the front
  of the accumulator, an object or \<open>undefined\<close>, with a column value. \<open>undefined\<close>
  loosely equals only \<open>null\<close> and \<open>undefined\<close>. An object is converted to the string
  \<open>[object Object]\<close> for the comparison: it equals that string, and no number, boolean,
  \<open>null\<close> or \<open>undefined\<close>.
\<close>

fun loose_neq :: "obj option \<Rightarrow> jsval \<Rightarrow> bool" where
  "loose_neq None JUndefined = False"
| "loose_neq None JNull = False"
| "loose_neq None v = True"
| "loose_neq (Some ob) (JStr s) = (s \<noteq> ''[object Object]'')"
| "loose_neq (Some ob) v = True"

text \<open>
  The callback of \<open>reduceRight\<close>. The first branch puts a new record, without a
  \<open>jobs\<close> property, at the front. The other branch reads \<open>rows[0].jobs.unshift\<close>: a
  \<open>TypeError\<close> when \<open>rows[0]\<close> is \<open>undefined\<close>, when it has no \<open>jobs\<close>, and when
  \<open>jobs\<close> is not an array (no value of a record here is one).
\<close>

definition findAll_callback :: "obj list \<Rightarrow> obj \<Rightarrow> error + obj list" where
  "findAll_callback rows row =
     (if loose_neq (first_row rows) (js_get row ''username'')
      then Inr ([(''username'', js_get row ''username''),
                 (''firstName'', js_get row ''firstName''),
                 (''lastName'', js_get row ''lastName''),
                 (''email'', js_get row ''email''),
                 (''isAdmin'', js_get row ''isAdmin'')] # rows)
      else (case first_row rows of
              None \<Rightarrow> Inl (TypeError ''Cannot read properties of undefined (reading 'jobs')'')
            | Some r \<Rightarrow>
                (case map_of r ''jobs'' of
                   None \<Rightarrow> Inl (TypeError ''Cannot read properties of undefined (reading 'unshift')'')
                 | Some v \<Rightarrow> Inl (TypeError ''rows[0].jobs.unshift is not a function''))))"

text \<open>\<open>xs.reduceRight(f, init)\<close>: the last element first; a throw of the callback ends it.\<close>

fun reduceRight :: "('b \<Rightarrow> 'a \<Rightarrow> error + 'b) \<Rightarrow> 'a list \<Rightarrow> 'b \<Rightarrow> error + 'b" where
  "reduceRight f [] init = Inr init"
| "reduceRight f (x # xs) init =
     (case reduceRight f xs init of Inl e \<Rightarrow> Inl e | Inr acc \<Rightarrow> f acc x)"

definition User_findAll :: "store \<Rightarrow> error + obj list" where
  "User_findAll st = reduceRight findAll_callback (select_all_users st) []"

section \<open>User.get\<close>

text \<open>\<open>... LEFT JOIN applications a ON a.username = u.username WHERE u.username = $1\<close>\<close>

definition select_user :: "store \<Rightarrow> string \<Rightarrow> obj list" where
  "select_user st username =
     map (user_join_row ''jobId'')
       (filter (\<lambda>ua. u_username (fst ua) = username) (users_left_join_applications st))"

definition User_get :: "store \<Rightarrow> string \<Rightarrow> error + obj" where
  "User_get st username =
     (let userRes = select_user st username
      in if length userRes = 0 then Inl (NotFoundError (''No user: '' @ username))
         else (case first_row userRes of
                 None \<Rightarrow> Inl (TypeError ''Cannot read properties of undefined (reading 'username')'')
               | Some user \<Rightarrow>
                   Inr [(''username'', js_get user ''username''),
                        (''firstName'', js_get user ''firstName''),
                        (''lastName'', js_get user ''lastName''),
                        (''email'', js_get user ''email''),
                        (''isAdmin'', js_get user ''isAdmin'')]))"

section \<open>User.apply\<close>

text \<open>
  \<open>x FULL OUTER JOIN y ON c\<close>: every matching pair, every row of \<open>x\<close> without a match
  beside \<open>NULL\<close>s, and every row of \<open>y\<close> without a match beside \<open>NULL\<close>s.
\<close>

definition full_outer_join :: "('a \<Rightarrow> 'b \<Rightarrow> bool) \<Rightarrow> 'a list \<Rightarrow> 'b list \<Rightarrow> ('a option \<times> 'b option) list" where
  "full_outer_join on xs ys =
     concat (map (\<lambda>x. case filter (on x) ys of
                          [] \<Rightarrow> [(Some x, None)]
                        | ms \<Rightarrow> map (\<lambda>y. (Some x, Some y)) ms) xs)
     @ map (\<lambda>y. (None, Some y)) (filter (\<lambda>y. list_all (\<lambda>x. \<not> on x y) xs) ys)"

text \<open>
  \<open>applications a full outer join jobs j on a.job_id = j.id full outer join users u on
  u.username = a.username\<close>. A comparison with \<open>NULL\<close> does not hold, so a job
  without application joins no user.
\<close>

definition applications_jobs_users ::
  "store \<Rightarrow> ((application_row option \<times> job_row option) option \<times> user_row option) list" where
  "applications_jobs_users st =
     full_outer_join
       (\<lambda>aj u. case fst aj of None \<Rightarrow> False | Some a \<Rightarrow> u_username u = a_username a)
       (full_outer_join (\<lambda>a j. a_job_id a = j_id j) (applications st) (jobs st)) (users st)"

text \<open>
  A line of the answer of the existence query: \<open>u.username\<close> and \<open>j.id\<close>, each a value
  or \<open>NULL\<close>.
\<close>

record line =
  line_username :: "string option"
  line_id :: "int option"

text \<open>\<open>select u.username, j.id from ... where u.username = $1 or j.id = $2\<close>\<close>

definition select_users_and_jobs :: "store \<Rightarrow> string \<Rightarrow> int \<Rightarrow> line list" where
  "select_users_and_jobs st username jobId =
     filter (\<lambda>l. line_username l = Some username \<or> line_id l = Some jobId)
       (map (\<lambda>r. \<lparr>line_username = map_option u_username (snd r),
                   line_id = (case fst r of None \<Rightarrow> None
                              | Some aj \<Rightarrow> map_option j_id (snd aj))\<rparr>)
          (applications_jobs_users st))"

text \<open>
  \<open>insert into applications (username, job_id) values ($1, $2) returning username,
  job_id as "jobId"\<close>: the store checks both references and the key of the pair.
\<close>

definition insert_application :: "store \<Rightarrow> string \<Rightarrow> int \<Rightarrow> (error + obj list) \<times> store" where
  "insert_application st username jobId =
     (if list_ex (\<lambda>a. a_username a = username \<and> a_job_id a = jobId) (applications st)
      then (Inl (Fault ''duplicate key value violates unique constraint''), st)
      else if list_ex (\<lambda>u. u_username u = username) (users st) \<and>
              list_ex (\<lambda>j. j_id j = jobId) (jobs st)
      then (Inr [[(''username'', JStr username), (''jobId'', JNum jobId)]],
            st\<lparr>applications := applications st @ [\<lparr>a_username = username, a_job_id = jobId\<rparr>]\<rparr>)
      else (Inl (Fault ''insert violates foreign key constraint''), st))"

text \<open>
  \<open>apply(username, jobId)\<close>. The job identifier is the integer it denotes; the tests
  \<open>line.username == username\<close> and \<open>line.id == jobId\<close> hold for an equal value and
  never for \<open>NULL\<close>. The result is \<open>confirmation.rows[0]\<close>.
\<close>

definition User_apply :: "store \<Rightarrow> string \<Rightarrow> int \<Rightarrow> (error + obj option) \<times> store" where
  "User_apply st username jobId =
     (let usersAndJobs = select_users_and_jobs st username jobId;
          userExists = find (\<lambda>l. line_username l = Some username) usersAndJobs;
          jobExists = find (\<lambda>l. line_id l = Some jobId) usersAndJobs;
          appliedAlready =
            find (\<lambda>l. line_username l = Some username \<and> line_id l = Some jobId) usersAndJobs
      in if userExists = None
         then (Inl (NotFoundError (''user: '' @ username @ '' not found'')), st)
         else if jobExists = None
         then (Inl (NotFoundError (''job ID: '' @ number_to_string jobId @ '' not found'')), st)
         else if appliedAlready \<noteq> None
         then (Inl (ExpressError
                      (username @ '' has already applied to job:'' @ number_to_string jobId) 409), st)
         else (case insert_application st username jobId of
                 (Inl e, st') \<Rightarrow> (Inl e, st')
               | (Inr rows, st') \<Rightarrow> (Inr (first_row rows), st')))"

section \<open>The partial-update clause builder\<close>

text \<open>
  \<open>sqlForPartialUpdate\<close> of \<open>helpers/sql.js\<close> is required by both models and is not
  among the sources; the three definitions of this section follow its contract in the
  specification.
\<close>

text \<open>
  Modelled from the spec: the physical column of a logical field name, "using the rename
  mapping when present"; \<open>helpers/sql.js\<close> is missing.
\<close>

definition sql_column :: "(string \<times> string) list \<Rightarrow> string \<Rightarrow> string" where
  "sql_column jsToSql k = (case map_of jsToSql k of None \<Rightarrow> k | Some c \<Rightarrow> c)"

text \<open>
  Modelled from the spec: the assignments of the clause, one per key "in iteration order",
  each with "a positional parameter", as in the example \<open>col1 = $1, col2 = $2\<close>;
  \<open>helpers/sql.js\<close> is missing. The index counts the keys already rendered.
\<close>

fun assignment_clauses :: "(string \<times> string) list \<Rightarrow> nat \<Rightarrow> string list \<Rightarrow> string list" where
  "assignment_clauses jsToSql idx [] = []"
| "assignment_clauses jsToSql idx (k # ks) =
     (sql_column jsToSql k @ '' = $'' @ decimal (idx + 1))
       # assignment_clauses jsToSql (idx + 1) ks"

text \<open>
  Modelled from the spec: \<open>sqlForPartialUpdate(dataToUpdate, jsToSql)\<close> of
  \<open>helpers/sql.js\<close>, which is missing. From a mapping of logical field names to new
  values and a mapping of logical names to physical column names it gives "a parameterized
  assignment clause covering every key, in iteration order, using the rename mapping when
  present, a positional parameter per value, and the ordered list of values in the same
  order"; it "fails with a no data condition if the input mapping is empty", a validation
  error.
\<close>

definition sqlForPartialUpdate ::
  "obj \<Rightarrow> (string \<times> string) list \<Rightarrow> error + (string \<times> jsval list)" where
  "sqlForPartialUpdate dataToUpdate jsToSql =
     (let keys = js_keys dataToUpdate
      in if length keys = 0 then Inl (BadRequestError ''No data'')
         else Inr (join '', '' (assignment_clauses jsToSql 0 keys), map snd dataToUpdate))"

section \<open>User.update\<close>

text \<open>
  \<open>UPDATE users SET <assignments> WHERE username = $n RETURNING ...\<close>. The store gets
  the statement as the list of its assignments, a column and the value bound to its
  parameter; the text is their rendering by the clause builder. A statement is rejected,
  whatever the rows, when it has no assignment, names a column twice, names a column
  other than the five the update may set, or binds a value of another type.
\<close>

fun user_column_accepts :: "string \<times> jsval \<Rightarrow> bool" where
  "user_column_accepts (c, JStr s) =
     (c = ''password'' \<or> c = ''first_name'' \<or> c = ''last_name'' \<or> c = ''email'')"
| "user_column_accepts (c, JBool b) = (c = ''is_admin'')"
| "user_column_accepts (c, v) = False"

fun set_user_column :: "user_row \<Rightarrow> string \<times> jsval \<Rightarrow> user_row" where
  "set_user_column u (c, JStr s) =
     (if c = ''password'' then u\<lparr>u_password := s\<rparr>
      else if c = ''first_name'' then u\<lparr>u_first_name := s\<rparr>
      else if c = ''last_name'' then u\<lparr>u_last_name := s\<rparr>
      else if c = ''email'' then u\<lparr>u_email := s\<rparr>
      else u)"
| "set_user_column u (c, JBool b) = (if c = ''is_admin'' then u\<lparr>u_is_admin := b\<rparr> else u)"
| "set_user_column u (c, v) = u"

definition update_users ::
  "store \<Rightarrow> (string \<times> jsval) list \<Rightarrow> string \<Rightarrow> (error + obj list) \<times> store" where
  "update_users st assignments username =
     (if assignments \<noteq> [] \<and> distinct (map fst assignments) \<and>
         list_all user_column_accepts assignments
      then (let users' = map (\<lambda>u. if u_username u = username
                                    then foldl set_user_column u assignments else u) (users st)
            in (Inr (map user_returning (filter (\<lambda>u. u_username u = username) users')),
                st\<lparr>users := users'\<rparr>))
      else (Inl (Fault ''the store rejects the statement''), st))"

definition user_jsToSql :: "(string \<times> string) list" where
  "user_jsToSql =
     [(''firstName'', ''first_name''), (''lastName'', ''last_name''), (''isAdmin'', ''is_admin'')]"

text \<open>
  \<open>update(username, data)\<close>, with \<open>bcrypt.hash\<close> as a parameter; the library rejects
  data that is not a string. The write has been done when the missing row is noticed, so
  the store after the call is part of the result on every path.
\<close>

definition User_update ::
  "(string \<Rightarrow> string) \<Rightarrow> store \<Rightarrow> string \<Rightarrow> obj \<Rightarrow> (error + obj) \<times> store" where
  "User_update bcrypt_hash st username data =
     (case (if truthy (js_get data ''password'')
            then (case js_get data ''password'' of
                    JStr p \<Rightarrow> Inr (js_set data ''password'' (JStr (bcrypt_hash p)))
                  | _ \<Rightarrow> Inl (Fault ''data must be a string or Buffer and salt must either be a salt string or a number of rounds''))
            else Inr data) of
        Inl e \<Rightarrow> (Inl e, st)
      | Inr data \<Rightarrow>
          (case sqlForPartialUpdate data user_jsToSql of
             Inl e \<Rightarrow> (Inl e, st)
           | Inr (setCols, values) \<Rightarrow>
               (case update_users st
                       (zip (map (sql_column user_jsToSql) (js_keys data)) values) username of
                  (Inl e, st') \<Rightarrow> (Inl e, st')
                | (Inr rows, st') \<Rightarrow>
                    (case first_row rows of
                       None \<Rightarrow> (Inl (NotFoundError (''No user: '' @ username)), st')
                     | Some user \<Rightarrow> (Inr (js_delete user ''password''), st')))))"

section \<open>Job.update\<close>

text \<open>
  \<open>update jobs set <assignments> where id = $n returning id, title, equity, salary,
  company_handle as "companyHandle"\<close>. The salary is an integer or \<open>NULL\<close>; the equity
  is kept as its decimal text, given as a number or as digits with an optional fraction.
\<close>

definition is_digit :: "char \<Rightarrow> bool" where
  "is_digit c = (c \<in> set ''0123456789'')"

definition decimal_text :: "string \<Rightarrow> bool" where
  "decimal_text s =
     (case (takeWhile is_digit s, dropWhile is_digit s) of
        (ds, []) \<Rightarrow> ds \<noteq> []
      | (ds, c # fs) \<Rightarrow> ds \<noteq> [] \<and> c = CHR ''.'' \<and> fs \<noteq> [] \<and> list_all is_digit fs)"

fun job_column_accepts :: "string \<times> jsval \<Rightarrow> bool" where
  "job_column_accepts (c, JStr s) =
     (c = ''title'' \<or> c = ''company_handle'' \<or> (c = ''equity'' \<and> decimal_text s))"
| "job_column_accepts (c, JNum n) = (c = ''salary'' \<or> c = ''equity'')"
| "job_column_accepts (c, JNull) = (c = ''salary'')"
| "job_column_accepts (c, v) = False"

fun set_job_column :: "job_row \<Rightarrow> string \<times> jsval \<Rightarrow> job_row" where
  "set_job_column j (c, JStr s) =
     (if c = ''title'' then j\<lparr>j_title := s\<rparr>
      else if c = ''company_handle'' then j\<lparr>j_company_handle := s\<rparr>
      else if c = ''equity'' then j\<lparr>j_equity := s\<rparr>
      else j)"
| "set_job_column j (c, JNum n) =
     (if c = ''salary'' then j\<lparr>j_salary := Some n\<rparr>
      else if c = ''equity'' then j\<lparr>j_equity := number_to_string n\<rparr>
      else j)"
| "set_job_column j (c, JNull) = (if c = ''salary'' then j\<lparr>j_salary := None\<rparr> else j)"
| "set_job_column j (c, v) = j"

definition job_returning :: "job_row \<Rightarrow> obj" where
  "job_returning j =
     [(''id'', JNum (j_id j)),
      (''title'', JStr (j_title j)),
      (''equity'', JStr (j_equity j)),
      (''salary'', (case j_salary j of None \<Rightarrow> JNull | Some n \<Rightarrow> JNum n)),
      (''companyHandle'', JStr (j_company_handle j))]"

definition update_jobs ::
  "store \<Rightarrow> (string \<times> jsval) list \<Rightarrow> int \<Rightarrow> (error + obj list) \<times> store" where
  "update_jobs st assignments id' =
     (if assignments \<noteq> [] \<and> distinct (map fst assignments) \<and>
         list_all job_column_accepts assignments
      then (let jobs' = map (\<lambda>j. if j_id j = id'
                                   then foldl set_job_column j assignments else j) (jobs st)
            in (Inr (map job_returning (filter (\<lambda>j. j_id j = id') jobs')),
                st\<lparr>jobs := jobs'\<rparr>))
      else (Inl (Fault ''the store rejects the statement''), st))"

definition job_jsToSql :: "(string \<times> string) list" where
  "job_jsToSql = [(''companyHandle'', ''company_handle'')]"

definition Job_update :: "store \<Rightarrow> int \<Rightarrow> obj \<Rightarrow> (error + obj) \<times> store" where
  "Job_update st id' data =
     (case sqlForPartialUpdate data job_jsToSql of
        Inl e \<Rightarrow> (Inl e, st)
      | Inr (setCols, values) \<Rightarrow>
          (case update_jobs st (zip (map (sql_column job_jsToSql) (js_keys data)) values) id' of
             (Inl e, st') \<Rightarrow> (Inl e, st')
           | (Inr rows, st') \<Rightarrow>
               (case first_row rows of
                  None \<Rightarrow> (Inl (NotFoundError (''No job: '' @ number_to_string id')), st')
                | Some job \<Rightarrow> (Inr job, st'))))"





text \<open>What exists in a store, said without the statements of the models.\<close>

definition user_exists :: "store \<Rightarrow> string \<Rightarrow> bool" where
  "user_exists st username = list_ex (\<lambda>u. u_username u = username) (users st)"



section \<open>A store of the shape of the test fixtures\<close>

text \<open>
  Two users and two jobs; \<open>u1\<close> has applied to both jobs, \<open>u2\<close> to none. The stored
  passwords are the hashes of \<open>pw1\<close> and \<open>pw2\<close> under the hash \<open>\<lambda>p. ''hashed:'' @ p\<close>
  used with this store.
\<close>

definition example_store :: store where
  "example_store =
     \<lparr>users =
        [\<lparr>u_username = ''u2'', u_password = ''hashed:pw2'', u_first_name = ''U2F'',
          u_last_name = ''U2L'', u_email = ''u2@email.com'', u_is_admin = False\<rparr>,
         \<lparr>u_username = ''u1'', u_password = ''hashed:pw1'', u_first_name = ''U1F'',
          u_last_name = ''U1L'', u_email = ''u1@email.com'', u_is_admin = True\<rparr>],
      jobs =
        [\<lparr>j_id = 1, j_title = ''j11'', j_salary = Some 11, j_equity = ''0'',
          j_company_handle = ''c1''\<rparr>,
         \<lparr>j_id = 2, j_title = ''j21'', j_salary = Some 21, j_equity = ''0'',
          j_company_handle = ''c1''\<rparr>],
      applications =
        [\<lparr>a_username = ''u1'', a_job_id = 1\<rparr>, \<lparr>a_username = ''u1'', a_job_id = 2\<rparr>]\<rparr>"

section \<open>Properties of the predicate composer\<close>

lemma map_of_js_set: "map_of (js_set ob k v) k' = (if k' = k then Some v else map_of ob k')"
proof (cases "k \<in> fst ` set ob")
  case True
  have "map_of (map (\<lambda>kv. if fst kv = k then (k, v) else kv) ob) k' =
          (if k' = k \<and> k \<in> fst ` set ob then Some v else map_of ob k')"
    by (induction ob) (force split: if_splits)+
  with True show ?thesis by (simp add: js_set_def)
next
  case False
  then have "map_of (ob @ [(k, v)]) k' = (if k' = k then Some v else map_of ob k')"
    by (induction ob) auto
  with False show ?thesis by (simp only: js_set_def if_False)
qed

lemma js_get_js_set: "js_get (js_set ob k v) k' = (if k' = k then v else js_get ob k')"
  by (simp add: js_get_def map_of_js_set)

lemma js_get_js_delete: "js_get (js_delete ob k) k' = (if k' = k then JUndefined else js_get ob k')"
proof -
  have "map_of (filter (\<lambda>kv. fst kv \<noteq> k) ob) k' = (if k' = k then None else map_of ob k')"
    by (induction ob) auto
  then show ?thesis
    by (simp add: js_get_def js_delete_def)
qed

lemma Job_find_query_falsy:
  "Job_find_query (js_set bag ''title'' (JStr [])) = Job_find_query (js_delete bag ''title'')"
  "Job_find_query (js_set bag ''minSalary'' (JNum 0)) = Job_find_query (js_delete bag ''minSalary'')"
  "Job_find_query (js_set bag ''companyHandle'' (JStr [])) =
     Job_find_query (js_delete bag ''companyHandle'')"
  by (simp_all add: Job_find_query_def Job_find_parts_def Let_def js_get_js_set js_get_js_delete)

lemma Job_find_minSalary_0: "Job_find_parts [(''minSalary'', JNum 0)] = Job_find_parts []"
  by (simp add: Job_find_parts_def Let_def js_get_def)

text \<open>
  C10. A filter whose value is falsy is treated as absent: the empty title, the minimum
  salary 0 and the empty company handle contribute no fragment and no parameter, so the
  statement and the parameters handed to the driver, and with them the answer of
  \<open>Job.find\<close>, are those of the bag without that filter. In particular
  \<open>Job.find({minSalary: 0})\<close> has no fragment at all and issues the statement of
  \<open>Job.find({})\<close>.
\<close>

theorem Job_find_falsy_filter_is_absent:
  "Job_find_query (js_set bag ''title'' (JStr [])) = Job_find_query (js_delete bag ''title'') \<and>
   Job_find_query (js_set bag ''minSalary'' (JNum 0)) =
     Job_find_query (js_delete bag ''minSalary'') \<and>
   Job_find_query (js_set bag ''companyHandle'' (JStr [])) =
     Job_find_query (js_delete bag ''companyHandle'') \<and>
   Job_find db_query (js_set bag ''title'' (JStr [])) =
     Job_find db_query (js_delete bag ''title'') \<and>
   Job_find db_query (js_set bag ''minSalary'' (JNum 0)) =
     Job_find db_query (js_delete bag ''minSalary'') \<and>
   Job_find db_query (js_set bag ''companyHandle'' (JStr [])) =
     Job_find db_query (js_delete bag ''companyHandle'') \<and>
   fst (Job_find_parts [(''minSalary'', JNum 0)]) = [] \<and>
   Job_find db_query [(''minSalary'', JNum 0)] = Job_find db_query []"
proof -
  have "fst (Job_find_parts [(''minSalary'', JNum 0)]) = []"
    by (simp add: Job_find_parts_def Let_def js_get_def)
  moreover have "Job_find db_query [(''minSalary'', JNum 0)] = Job_find db_query []"
    by (simp add: Job_find_def Job_find_query_def Job_find_minSalary_0)
  ultimately show ?thesis
    by (simp add: Job_find_def Job_find_query_falsy)
qed

text \<open>
  C1. For the empty filter bag no fragment is pushed, the join of no fragments is the empty
  string, and the statement handed to the driver ends in \<open>where\<close> with no condition
  after it: the predicate is not an always-true condition but is missing.
\<close>

theorem Job_find_empty_bag_query:
  \<open>Job_find_parts [] = ([], []) \<and>
   Job_find_query [] =
     (''select id, title, salary, equity, company_handle as "companyHandle" from jobs where '',
      [])\<close>
  by (simp add: Job_find_query_def Job_find_parts_def Job_find_select_def Let_def js_get_def)

text \<open>
  C5, as stated, fails: the bag \<open>{minSalary: 0}\<close> has one filter present and the
  predicate has no fragment.
\<close>

theorem Job_find_present_filter_without_clause:
  "filter (present [(''minSalary'', JNum 0)]) filter_order = [MinSalary] \<and>
   fst (Job_find_parts [(''minSalary'', JNum 0)]) = [] \<and>
   length (fst (Job_find_parts [(''minSalary'', JNum 0)])) \<noteq>
     length (filter (present [(''minSalary'', JNum 0)]) filter_order)"
  by (simp add: Job_find_parts_def filter_order_def Let_def js_get_def)

lemma Job_find_parts_honoured:
  "Job_find_parts bag =
     (clauses_from 1 (filter (honoured bag) filter_order),
      map (bound_value bag) (filter (\<lambda>f. f \<noteq> HasEquity) (filter (honoured bag) filter_order)))"
proof -
  have eq: "truthy (case js_get bag ''hasEquity'' of JUndefined \<Rightarrow> JNum 0 | v \<Rightarrow> v) =
            truthy (js_get bag ''hasEquity'')"
    by (cases "js_get bag ''hasEquity''") simp_all
  show ?thesis
    unfolding Job_find_parts_def Let_def eq
    by (cases "truthy (js_get bag ''title'')"; cases "truthy (js_get bag ''hasEquity'')";
        cases "truthy (js_get bag ''minSalary'')"; cases "truthy (js_get bag ''companyHandle'')")
       (simp_all add: filter_order_def honoured_def)
qed

text \<open>
  C5, amended. For every filter bag the predicate has exactly one fragment per filter
  whose value is truthy (a non-empty title, a non-zero minSalary, a truthy hasEquity, a
  non-empty companyHandle), in the order title, hasEquity, minSalary, companyHandle, and
  the statement joins them with \<open>' and '\<close>. \<open>hasEquity\<close> contributes the fragment
  \<open>equity > 0\<close> exactly when it is truthy and binds no parameter; the other fragments
  use the positions \<open>$1, $2, ...\<close> in order without a gap, and the value list holds
  their values in the same order.
\<close>

theorem Job_find_one_clause_per_honoured_filter:
  "(let fs = filter (honoured bag) filter_order;
        ps = filter (\<lambda>f. f \<noteq> HasEquity) fs;
        (sqlComponents, sqlInputs) = Job_find_parts bag
    in length sqlComponents = length fs \<and>
       sqlComponents = clauses_from 1 fs \<and>
       (''equity > 0'' \<in> set sqlComponents) = honoured bag HasEquity \<and>
       filter (\<lambda>c. c \<noteq> ''equity > 0'') sqlComponents =
         map (\<lambda>(f, i). clause_text f i) (zip ps [1..<Suc (length ps)]) \<and>
       length sqlInputs = length ps \<and>
       sqlInputs = map (bound_value bag) ps \<and>
       fst (Job_find_query bag) = Job_find_select @ join '' and '' sqlComponents)"
  unfolding Job_find_query_def Job_find_parts_honoured Let_def
  by (cases "honoured bag Title"; cases "honoured bag HasEquity";
      cases "honoured bag MinSalary"; cases "honoured bag CompanyHandle")
     (simp_all add: filter_order_def upt_rec)

section \<open>Properties of the user operations\<close>

lemma first_row_filter: "first_row (filter P xs) = find P xs"
  by (induction xs) auto

lemma first_row_map: "first_row (map f xs) = map_option f (first_row xs)"
  by (cases xs) auto

lemma User_authenticate_find:
  "User_authenticate bcrypt_compare st username password =
     (case find (\<lambda>u. u_username u = username) (users st) of
        None \<Rightarrow> Inl (UnauthorizedError ''Invalid username/password'')
      | Some u \<Rightarrow>
          if bcrypt_compare password (u_password u) then Inr (user_returning u)
          else Inl (UnauthorizedError ''Invalid username/password''))"
  by (simp add: User_authenticate_def select_user_credentials_def first_row_map first_row_filter
        js_get_def js_delete_def user_returning_def split: option.splits)

lemma js_keys_user_returning:
  "js_keys (user_returning u) = [''username'', ''firstName'', ''lastName'', ''email'', ''isAdmin'']"
  by (simp add: js_keys_def user_returning_def)

text \<open>
  C7. \<open>User.authenticate\<close> answers with the one error \<open>UnauthorizedError("Invalid
  username/password")\<close> both when no user has the username and when the password does
  not match the stored hash, never with a \<open>NotFoundError\<close>; when the password matches,
  it returns the user's projection, which has no \<open>password\<close> property.
\<close>

theorem User_authenticate_unauthorized:
  "User_authenticate bcrypt_compare st username password =
     (case find (\<lambda>u. u_username u = username) (users st) of
        None \<Rightarrow> Inl (UnauthorizedError ''Invalid username/password'')
      | Some u \<Rightarrow>
          if bcrypt_compare password (u_password u) then Inr (user_returning u)
          else Inl (UnauthorizedError ''Invalid username/password'')) \<and>
   (find (\<lambda>u. u_username u = username) (users st) = None) = (\<not> user_exists st username) \<and>
   (\<forall>msg. User_authenticate bcrypt_compare st username password \<noteq> Inl (NotFoundError msg)) \<and>
   (case User_authenticate bcrypt_compare st username password of
      Inl e \<Rightarrow> e = UnauthorizedError ''Invalid username/password''
    | Inr user \<Rightarrow> ''password'' \<notin> set (js_keys user))"
  by (auto simp: User_authenticate_find js_keys_user_returning user_exists_def find_None_iff
        list_ex_iff split: option.splits)

lemma User_register_keys:
  "fst (User_register h st username password firstName lastName email isAdmin) = Inr r \<Longrightarrow>
   \<exists>user. r = Some user \<and> js_keys user = [''username'', ''firstName'', ''lastName'', ''email'', ''isAdmin'']"
  by (auto simp: User_register_def insert_user_def Let_def js_keys_user_returning
        split: option.splits if_splits)

lemma User_get_keys:
  "User_get st username = Inr user \<Longrightarrow>
   js_keys user = [''username'', ''firstName'', ''lastName'', ''email'', ''isAdmin'']"
  by (auto simp: User_get_def Let_def js_keys_def split: option.splits if_splits)

lemma findAll_callback_keys:
  "findAll_callback rows row = Inr rows' \<Longrightarrow>
   list_all (\<lambda>ob. js_keys ob = ks) rows \<Longrightarrow>
   ks = [''username'', ''firstName'', ''lastName'', ''email'', ''isAdmin''] \<Longrightarrow>
   list_all (\<lambda>ob. js_keys ob = ks) rows'"
  by (auto simp: findAll_callback_def js_keys_def split: if_splits option.splits)

lemma reduceRight_findAll_keys:
  "reduceRight findAll_callback xs init = Inr rows \<Longrightarrow>
   list_all (\<lambda>ob. js_keys ob = [''username'', ''firstName'', ''lastName'', ''email'', ''isAdmin'']) init \<Longrightarrow>
   list_all (\<lambda>ob. js_keys ob = [''username'', ''firstName'', ''lastName'', ''email'', ''isAdmin'']) rows"
proof (induction xs arbitrary: rows)
  case Nil
  then show ?case by simp
next
  case (Cons x xs)
  then show ?case
    by (auto split: sum.splits dest: findAll_callback_keys)
qed

lemma User_findAll_keys:
  "User_findAll st = Inr rows \<Longrightarrow>
   list_all (\<lambda>ob. js_keys ob = [''username'', ''firstName'', ''lastName'', ''email'', ''isAdmin'']) rows"
  unfolding User_findAll_def by (erule reduceRight_findAll_keys) simp

lemma User_update_keys:
  "fst (User_update h st username data) = Inr user \<Longrightarrow>
   js_keys user = [''username'', ''firstName'', ''lastName'', ''email'', ''isAdmin'']"
  by (auto simp: User_update_def update_users_def Let_def js_keys_def js_delete_def
        first_row_map user_returning_def
        split: option.splits if_splits sum.splits prod.splits jsval.splits)

section \<open>Properties of User.apply\<close>

















section \<open>Properties of the clause builder and of the updates\<close>



















lemma assignment_clauses_nth:
  "assignment_clauses jsToSql n ks =
     map (\<lambda>i. sql_column jsToSql (ks ! i) @ '' = $'' @ decimal (n + i + 1)) [0..<length ks]"
proof (induction ks arbitrary: n)
  case Nil
  then show ?case by simp
next
  case (Cons k ks)
  have "map (\<lambda>i. sql_column jsToSql ((k # ks) ! i) @ '' = $'' @ decimal (n + i + 1))
          [0..<length (k # ks)] =
        (sql_column jsToSql k @ '' = $'' @ decimal (n + 1)) #
        map (\<lambda>i. sql_column jsToSql (ks ! i) @ '' = $'' @ decimal (Suc n + i + 1))
          [0..<length ks]"
    by (simp add: upt_conv_Cons map_Suc_upt[symmetric] del: upt_Suc)
  with Cons show ?case by simp
qed

lemma decimal_digit: "n < 10 \<Longrightarrow> decimal n = [digit_char n]"
  by (simp add: decimal.simps)

text \<open>
  C6. For a non-empty field mapping the clause builder produces one assignment per key, in
  iteration order, the \<open>i\<close>-th (from 0) being the column of the \<open>i\<close>-th key, renamed where
  the rename mapping has the key, assigned the parameter \<open>$(i+1)\<close>; the assignments are
  joined with \<open>', '\<close>, and the value list is the values in the same order, of the same
  length. For the empty mapping it fails with the validation error \<open>No data\<close>, and so do
  \<open>User.update\<close> and \<open>Job.update\<close>, which call it.
\<close>

theorem sqlForPartialUpdate_clauses:
  "sqlForPartialUpdate data jsToSql =
     (if data = [] then Inl (BadRequestError ''No data'')
      else Inr (join '', ''
                  (map (\<lambda>i. sql_column jsToSql (js_keys data ! i) @ '' = $'' @ decimal (i + 1))
                     [0..<length data]),
                map snd data)) \<and>
   length (assignment_clauses jsToSql 0 (js_keys data)) = length data \<and>
   sqlForPartialUpdate [(''firstName'', JStr ''Aliya''), (''age'', JNum 32)] user_jsToSql =
     Inr (''first_name = $1, age = $2'', [JStr ''Aliya'', JNum 32]) \<and>
   User_update bcrypt_hash st username [] = (Inl (BadRequestError ''No data''), st) \<and>
   Job_update st id' [] = (Inl (BadRequestError ''No data''), st)"
proof -
  have a: "sqlForPartialUpdate data jsToSql =
     (if data = [] then Inl (BadRequestError ''No data'')
      else Inr (join '', ''
                  (map (\<lambda>i. sql_column jsToSql (js_keys data ! i) @ '' = $'' @ decimal (i + 1))
                     [0..<length data]),
                map snd data))"
    by (simp add: sqlForPartialUpdate_def Let_def assignment_clauses_nth js_keys_def)
  have b: "length (assignment_clauses jsToSql 0 (js_keys data)) = length data"
    by (simp add: assignment_clauses_nth js_keys_def)
  have c: "sqlForPartialUpdate [(''firstName'', JStr ''Aliya''), (''age'', JNum 32)] user_jsToSql =
           Inr (''first_name = $1, age = $2'', [JStr ''Aliya'', JNum 32])"
    by (simp add: sqlForPartialUpdate_def Let_def js_keys_def sql_column_def user_jsToSql_def
          decimal_digit digit_char_def)
  have d: "User_update bcrypt_hash st username [] = (Inl (BadRequestError ''No data''), st)"
    by (simp add: User_update_def sqlForPartialUpdate_def js_keys_def js_get_def)
  have e: "Job_update st id' [] = (Inl (BadRequestError ''No data''), st)"
    by (simp add: Job_update_def sqlForPartialUpdate_def js_keys_def)
  from a b c d e show ?thesis by (intro conjI)
qed




section \<open>The listings\<close>

text \<open>
  Unless a user is named \<open>[object Object]\<close>, \<open>findAll\<close> makes one record of every row
  of the join, in the order of the rows, so a user has as many records as applications
  (one record without any). \<open>get\<close> fails for a username no user has, and what it returns
  has no \<open>jobs\<close> property.
\<close>

lemma findAll_callback_row:
  "loose_neq (first_row rows) (JStr (u_username u)) \<Longrightarrow>
   findAll_callback rows (user_join_row ''job'' (u, a)) = Inr (user_returning u # rows)"
  by (simp add: findAll_callback_def user_join_row_def user_returning_def js_get_def)

lemma reduceRight_findAll_rows:
  assumes "list_all (\<lambda>ua. u_username (fst ua) \<noteq> ''[object Object]'') xs"
  shows "reduceRight findAll_callback (map (user_join_row ''job'') xs) [] =
           Inr (map (\<lambda>ua. user_returning (fst ua)) xs)"
  using assms
proof (induction xs)
  case Nil
  then show ?case by simp
next
  case (Cons x xs)
  obtain u a where x: "x = (u, a)" by (cases x)
  from Cons have acc: "reduceRight findAll_callback (map (user_join_row ''job'') xs) [] =
                        Inr (map (\<lambda>ua. user_returning (fst ua)) xs)"
    and ok: "u_username u \<noteq> ''[object Object]''"
    by (simp_all add: x)
  have neq: "loose_neq (first_row (map (\<lambda>ua. user_returning (fst ua)) xs)) (JStr (u_username u))"
    using ok by (cases xs) simp_all
  show ?case
    using neq by (simp add: acc x findAll_callback_row)
qed

lemma User_findAll_one_record_per_row:
  assumes "list_all (\<lambda>u. u_username u \<noteq> ''[object Object]'') (users st)"
  shows "User_findAll st =
           Inr (map (\<lambda>ua. user_returning (fst ua))
                  (sort_key (\<lambda>ua. u_username (fst ua)) (users_left_join_applications st)))"
proof -
  have "\<forall>ua\<in>set (users_left_join_applications st). fst ua \<in> set (users st)"
    by (auto simp: users_left_join_applications_def split: list.splits)
  with assms have "list_all (\<lambda>ua. u_username (fst ua) \<noteq> ''[object Object]'')
                     (sort_key (\<lambda>ua. u_username (fst ua)) (users_left_join_applications st))"
    by (auto simp: list_all_iff)
  then show ?thesis
    unfolding User_findAll_def select_all_users_def by (rule reduceRight_findAll_rows)
qed

lemma User_get_no_jobs: "User_get st username = Inr user \<Longrightarrow> js_get user ''jobs'' = JUndefined"
  by (auto simp: User_get_def Let_def js_get_def split: option.splits if_splits)

lemma User_get_not_found:
  assumes "\<not> user_exists st username"
  shows "User_get st username = Inl (NotFoundError (''No user: '' @ username))"
proof -
  have "\<forall>ua\<in>set (users_left_join_applications st). fst ua \<in> set (users st)"
    by (auto simp: users_left_join_applications_def split: list.splits)
  with assms have "filter (\<lambda>ua. u_username (fst ua) = username)
                     (users_left_join_applications st) = []"
    by (auto simp: filter_empty_conv user_exists_def list_ex_iff)
  then show ?thesis
    by (simp add: User_get_def select_user_def)
qed

text \<open>
  C2. On the example store, where \<open>u1\<close> has two applications and \<open>u2\<close> has none,
  \<open>User.findAll\<close> returns \<open>u1\<close> twice, once per application, and no record has a
  \<open>jobs\<close> property: the comparison \<open>rows[0] != row.username\<close> is between a record and a
  string, and the \<open>jobs\<close> property of a new record is commented out.
\<close>

theorem User_findAll_repeats_user_without_jobs:
  "User_findAll example_store =
     Inr [[(''username'', JStr ''u1''), (''firstName'', JStr ''U1F''), (''lastName'', JStr ''U1L''),
           (''email'', JStr ''u1@email.com''), (''isAdmin'', JBool True)],
          [(''username'', JStr ''u1''), (''firstName'', JStr ''U1F''), (''lastName'', JStr ''U1L''),
           (''email'', JStr ''u1@email.com''), (''isAdmin'', JBool True)],
          [(''username'', JStr ''u2''), (''firstName'', JStr ''U2F''), (''lastName'', JStr ''U2L''),
           (''email'', JStr ''u2@email.com''), (''isAdmin'', JBool False)]]"
  by code_simp

text \<open>
  C3. On the example store the application of \<open>u2\<close> to job 1 succeeds and is stored, and
  \<open>User.get\<close> on the store after it returns the projection of \<open>u2\<close> without any list of
  job identifiers: reading \<open>jobs\<close> from it gives \<open>undefined\<close>. \<open>User.findAll\<close> on that
  store has no list of job identifiers either. \<open>User.get\<close> of a username that no user
  has fails with a \<open>NotFoundError\<close>.
\<close>

theorem User_get_after_apply_has_no_jobs:
  "User_apply example_store ''u2'' 1 =
     (Inr (Some [(''username'', JStr ''u2''), (''jobId'', JNum 1)]),
      example_store\<lparr>applications := applications example_store @
                                        [\<lparr>a_username = ''u2'', a_job_id = 1\<rparr>]\<rparr>) \<and>
   User_get (example_store\<lparr>applications := applications example_store @
                                        [\<lparr>a_username = ''u2'', a_job_id = 1\<rparr>]\<rparr>) ''u2'' =
     Inr [(''username'', JStr ''u2''), (''firstName'', JStr ''U2F''), (''lastName'', JStr ''U2L''),
          (''email'', JStr ''u2@email.com''), (''isAdmin'', JBool False)] \<and>
   js_get [(''username'', JStr ''u2''), (''firstName'', JStr ''U2F''), (''lastName'', JStr ''U2L''),
          (''email'', JStr ''u2@email.com''), (''isAdmin'', JBool False)] ''jobs'' = JUndefined \<and>
   User_findAll (example_store\<lparr>applications := applications example_store @
                                        [\<lparr>a_username = ''u2'', a_job_id = 1\<rparr>]\<rparr>) =
     Inr [[(''username'', JStr ''u1''), (''firstName'', JStr ''U1F''), (''lastName'', JStr ''U1L''),
           (''email'', JStr ''u1@email.com''), (''isAdmin'', JBool True)],
          [(''username'', JStr ''u1''), (''firstName'', JStr ''U1F''), (''lastName'', JStr ''U1L''),
           (''email'', JStr ''u1@email.com''), (''isAdmin'', JBool True)],
          [(''username'', JStr ''u2''), (''firstName'', JStr ''U2F''), (''lastName'', JStr ''U2L''),
           (''email'', JStr ''u2@email.com''), (''isAdmin'', JBool False)]] \<and>
   User_get example_store ''nobody'' = Inl (NotFoundError ''No user: nobody'')"
  by code_simp

section \<open>The password is never returned\<close>

text \<open>
  C9. Whatever \<open>authenticate\<close>, \<open>register\<close>, \<open>findAll\<close>, \<open>get\<close> and \<open>update\<close>
  return on success has no \<open>password\<close> property.
\<close>

theorem password_never_returned:
  "(User_authenticate bcrypt_compare st username password = Inr user \<longrightarrow>
      ''password'' \<notin> set (js_keys user)) \<and>
   (fst (User_register bcrypt_hash st1 username1 password1 firstName lastName email isAdmin) = Inr r
      \<longrightarrow> (\<exists>user1. r = Some user1 \<and> ''password'' \<notin> set (js_keys user1))) \<and>
   (User_findAll st2 = Inr all \<longrightarrow> list_all (\<lambda>user2. ''password'' \<notin> set (js_keys user2)) all) \<and>
   (User_get st3 username3 = Inr user3 \<longrightarrow> ''password'' \<notin> set (js_keys user3)) \<and>
   (fst (User_update bcrypt_hash4 st4 username4 data) = Inr user4 \<longrightarrow>
      ''password'' \<notin> set (js_keys user4))"
proof (intro conjI impI)
  assume "User_authenticate bcrypt_compare st username password = Inr user"
  then show "''password'' \<notin> set (js_keys user)"
    by (auto simp: User_authenticate_find js_keys_user_returning split: option.splits if_splits)
next
  assume "fst (User_register bcrypt_hash st1 username1 password1 firstName lastName email isAdmin)
            = Inr r"
  from User_register_keys[OF this] show "\<exists>user1. r = Some user1 \<and> ''password'' \<notin> set (js_keys user1)"
    by auto
next
  assume "User_findAll st2 = Inr all"
  from User_findAll_keys[OF this]
  show "list_all (\<lambda>user2. ''password'' \<notin> set (js_keys user2)) all"
    by (auto simp: list_all_iff)
next
  assume "User_get st3 username3 = Inr user3"
  from User_get_keys[OF this] show "''password'' \<notin> set (js_keys user3)" by simp
next
  assume "fst (User_update bcrypt_hash4 st4 username4 data) = Inr user4"
  from User_update_keys[OF this] show "''password'' \<notin> set (js_keys user4)" by simp
qed

text \<open>
  Each of the five operations of C9 succeeds on the example store, and C9 gives a result
  without \<open>password\<close> there.
\<close>

theorem password_never_returned_witness:
  "(\<exists>user. User_authenticate (\<lambda>p h. h = ''hashed:'' @ p) example_store ''u1'' ''pw1'' = Inr user \<and>
           ''password'' \<notin> set (js_keys user)) \<and>
   (\<exists>user. fst (User_register (\<lambda>p. ''hashed:'' @ p) example_store ''new'' ''pw'' ''F'' ''L''
                  ''new@email.com'' False) = Inr (Some user) \<and>
           ''password'' \<notin> set (js_keys user)) \<and>
   (\<exists>all. User_findAll example_store = Inr all \<and>
          list_all (\<lambda>user. ''password'' \<notin> set (js_keys user)) all) \<and>
   (\<exists>user. User_get example_store ''u1'' = Inr user \<and> ''password'' \<notin> set (js_keys user)) \<and>
   (\<exists>user. fst (User_update (\<lambda>p. ''hashed:'' @ p) example_store ''u1''
                  [(''password'', JStr ''secret''), (''firstName'', JStr ''New'')]) = Inr user \<and>
           ''password'' \<notin> set (js_keys user))"
proof -
  let ?u1 = "[(''username'', JStr ''u1''), (''firstName'', JStr ''U1F''), (''lastName'', JStr ''U1L''),
              (''email'', JStr ''u1@email.com''), (''isAdmin'', JBool True)]"
  let ?u2 = "[(''username'', JStr ''u2''), (''firstName'', JStr ''U2F''), (''lastName'', JStr ''U2L''),
              (''email'', JStr ''u2@email.com''), (''isAdmin'', JBool False)]"
  let ?new = "[(''username'', JStr ''new''), (''firstName'', JStr ''F''), (''lastName'', JStr ''L''),
               (''email'', JStr ''new@email.com''), (''isAdmin'', JBool False)]"
  let ?upd = "[(''username'', JStr ''u1''), (''firstName'', JStr ''New''), (''lastName'', JStr ''U1L''),
               (''email'', JStr ''u1@email.com''), (''isAdmin'', JBool True)]"
  have a: "User_authenticate (\<lambda>p h. h = ''hashed:'' @ p) example_store ''u1'' ''pw1'' = Inr ?u1"
    by code_simp
  have r: "fst (User_register (\<lambda>p. ''hashed:'' @ p) example_store ''new'' ''pw'' ''F'' ''L''
                  ''new@email.com'' False) = Inr (Some ?new)"
    by code_simp
  have f: "User_findAll example_store = Inr [?u1, ?u1, ?u2]"
    by code_simp
  have g: "User_get example_store ''u1'' = Inr ?u1"
    by code_simp
  have u: "fst (User_update (\<lambda>p. ''hashed:'' @ p) example_store ''u1''
                  [(''password'', JStr ''secret''), (''firstName'', JStr ''New'')]) = Inr ?upd"
    by code_simp
  show ?thesis
    using password_never_returned
      [where bcrypt_compare = "\<lambda>p h. h = ''hashed:'' @ p" and st = example_store
         and username = "''u1''" and password = "''pw1''" and user = ?u1
         and bcrypt_hash = "\<lambda>p. ''hashed:'' @ p" and ?st1.0 = example_store
         and ?username1.0 = "''new''" and ?password1.0 = "''pw''" and firstName = "''F''"
         and lastName = "''L''" and email = "''new@email.com''" and isAdmin = False
         and r = "Some ?new"
         and ?st2.0 = example_store and all = "[?u1, ?u1, ?u2]"
         and ?st3.0 = example_store and ?username3.0 = "''u1''" and ?user3.0 = ?u1
         and ?bcrypt_hash4.0 = "\<lambda>p. ''hashed:'' @ p" and ?st4.0 = example_store
         and ?username4.0 = "''u1''"
         and data = "[(''password'', JStr ''secret''), (''firstName'', JStr ''New'')]"
         and ?user4.0 = ?upd]
    unfolding a r f g u by simp
qed

end
